theory Spec2Isabelle
  imports Complex_Main "HOL-Library.Word"
begin

unbundle bit_operations_syntax

section \<open>Python control flow: exceptions and process exit\<close>

text \<open>
  The three scripts are Python programs. A call either returns a value, raises an
  exception, or ends the process through \<^verbatim>\<open>sys.exit(code)\<close> (the exception
  \<^verbatim>\<open>SystemExit\<close>, which no handler of the scripts catches). The messages of the two
  \<^verbatim>\<open>ValueError\<close>s raised by the TIFF script are Chinese text with two embedded numbers
  (expected and actual size); they are kept as constructors that carry the two numbers.
\<close>

datatype value_error_msg =
    SizeMismatchBytes nat nat
      \<comment> \<open>line 177: expected \<^verbatim>\<open>width * height * 2\<close>, actual \<^verbatim>\<open>frame.get_buffer_size()\<close>\<close>
  | SizeMismatchSamples nat nat
      \<comment> \<open>line 181: expected \<^verbatim>\<open>width * height\<close>, actual \<^verbatim>\<open>bayer_raw_data.size\<close>\<close>
  | BufferNotMultipleOfElementSize
      \<comment> \<open>numpy.frombuffer: "buffer size must be a multiple of element size"\<close>
  | CannotReshape
      \<comment> \<open>numpy reshape: "cannot reshape array of size n into shape (h,w)"\<close>
  | OtherValueError
      \<comment> \<open>a \<^verbatim>\<open>ValueError\<close> raised inside vmbpy or OpenCV\<close>

datatype error =
    ValueError value_error_msg
  | IndexError
  | AttributeError
  | VmbFeatureError \<comment> \<open>\<^verbatim>\<open>VimbaFeatureError\<close> in the older \<^verbatim>\<open>vimba\<close> package\<close>
  | VmbCameraError
  | OtherError

datatype 'a outcome = Return 'a | Raise error | SysExit int

section \<open>Data of the camera library\<close>

text \<open>
  \<^verbatim>\<open>PixelFormat\<close> and \<^verbatim>\<open>FrameStatus\<close> are enumerations of vmbpy; the members
  the scripts and the specification name are listed, with further members of the same families.
\<close>

datatype PixelFormat =
    Mono8 | Mono10 | Mono12 | Mono14 | Mono16
  | BayerGR8 | BayerRG8 | BayerGB8 | BayerBG8
  | BayerGR12 | BayerRG12 | BayerGB12 | BayerBG12
  | Rgb8 | Bgr8 | Rgba8 | Bgra8 | Rgb16 | Bgr16 | Yuv422

datatype FrameStatus = Complete | Incomplete | TooSmall | Invalid

text \<open>All frames are recorded in this format, or transformed to it before being displayed.\<close>

definition opencv_display_format :: PixelFormat where
  "opencv_display_format = Bgr8"

definition ENTER_KEY_CODE :: int where
  "ENTER_KEY_CODE = 13"

text \<open>A frame as the callback receives it; the fields are named after the accessors.\<close>

record Frame =
  get_id :: nat
  get_status :: FrameStatus
  get_pixel_format :: PixelFormat
  get_width :: nat
  get_height :: nat
  get_buffer :: "8 word list"

definition get_buffer_size :: "Frame \<Rightarrow> nat" where
  "get_buffer_size frame = length (get_buffer frame)"

type_synonym ndarray = "nat list list list"
type_synonym bayer_image = "16 word list list"
type_synonym rgb_image = "16 word list list list"

text \<open>
  The functions of vmbpy, numpy and OpenCV whose code is outside the repository and whose
  result the scripts only pass on are parameters of the model. Each may raise.
\<close>

record library =
  convert_pixel_format :: "Frame \<Rightarrow> PixelFormat \<Rightarrow> error + Frame"
  as_opencv_image :: "Frame \<Rightarrow> error + ndarray"
  as_numpy_ndarray :: "Frame \<Rightarrow> error + ndarray"
  np_mean :: "ndarray \<Rightarrow> real"
  np_sum :: "ndarray \<Rightarrow> int"
  cvtColor_BAYER_RG2RGB_EA :: "bayer_image \<Rightarrow> error + rgb_image"

text \<open>The tables and helpers of vmbpy that pixel format negotiation consults.\<close>

record vmbpy_formats =
  COLOR_PIXEL_FORMATS :: "PixelFormat list"
  MONO_PIXEL_FORMATS :: "PixelFormat list"
  get_convertible_formats :: "PixelFormat \<Rightarrow> PixelFormat list"
  intersect_pixel_formats :: "PixelFormat list \<Rightarrow> PixelFormat list \<Rightarrow> PixelFormat list"

text \<open>
  A camera as the scripts see it: which features it has, which values a feature accepts,
  whether the packet size command of its first stream runs and when it reports completion.
  A feature that is absent makes \<^verbatim>\<open>cam.Name\<close> raise \<^verbatim>\<open>AttributeError\<close> and
  \<^verbatim>\<open>cam.get_feature_by_name(name)\<close> raise \<^verbatim>\<open>VmbFeatureError\<close>.
\<close>

datatype fvalue = IntVal int | FloatVal real | StrVal string

record Feature =
  readable :: bool
  accepts :: "fvalue \<Rightarrow> bool"

record Command =
  runs :: bool
  is_done :: "nat \<Rightarrow> bool" \<comment> \<open>the answer of the \<open>i\<close>-th call of \<^verbatim>\<open>is_done()\<close> after \<^verbatim>\<open>run()\<close>\<close>

record Stream =
  GVSPAdjustPacketSize :: "Command option"

record Camera =
  get_cam_id :: string
  get_name :: string
  get_pixel_formats :: "PixelFormat list"
  features :: "string \<Rightarrow> Feature option"
  get_streams :: "Stream list"

section \<open>Observable effects\<close>

text \<open>
  What a function does to the outside world is the list of its effects, in order.
  \<^verbatim>\<open>Print\<close> records one call of \<^verbatim>\<open>print\<close> of the command line functions; the progress
  messages of camera setup, of the callbacks and of the consumer loop are not recorded.
\<close>

datatype effect =
    Print string
  | FeatureSet string fvalue
  | CommandRun string
  | SetPixelFormat PixelFormat
  | StartStreaming nat
  | StopStreaming
  | QueueFrame Frame
  | ShutdownEventSet
  | ImShow ndarray
  | ImWrite string rgb_image
  | FileWrite real int
  | FileClose
  | DestroyWindow

type_synonym 'a run = "effect list \<times> 'a outcome"

text \<open>Sequencing: the second statement runs only when the first returned.\<close>

definition and_then :: "'a run \<Rightarrow> ('a \<Rightarrow> 'b run) \<Rightarrow> 'b run" where
  "and_then m f =
     (case m of
        (effs, Return x) \<Rightarrow> (case f x of (effs', r) \<Rightarrow> (effs @ effs', r))
      | (effs, Raise e) \<Rightarrow> (effs, Raise e)
      | (effs, SysExit c) \<Rightarrow> (effs, SysExit c))"

definition lift :: "error + 'a \<Rightarrow> 'a run" where
  "lift m = (case m of Inl e \<Rightarrow> ([], Raise e) | Inr x \<Rightarrow> ([], Return x))"

definition then_do :: "error + 'a \<Rightarrow> ('a \<Rightarrow> error + 'b) \<Rightarrow> error + 'b" where
  "then_do m f = (case m of Inl e \<Rightarrow> Inl e | Inr x \<Rightarrow> f x)"

section \<open>Command line: \<^verbatim>\<open>print_usage\<close>, \<^verbatim>\<open>abort\<close>, \<^verbatim>\<open>parse_args\<close>, \<^verbatim>\<open>get_camera\<close>\<close>

text \<open>
  The functions of this section are the same text in
  \<^verbatim>\<open>asynchronous_grab_opencv_12bit_rgb_tiff.py\<close> and in
  \<^verbatim>\<open>asynchronous_grab_opencv_roi.py\<close>. \<^verbatim>\<open>print()\<close> prints the empty string.
\<close>

definition print_usage :: "effect list" where
  "print_usage =
     [Print ''Usage:'',
      Print ''    python asynchronous_grab_opencv.py [camera_id]'',
      Print ''    python asynchronous_grab_opencv.py [/h] [-h]'',
      Print '''',
      Print ''Parameters:'',
      Print ''    camera_id   ID of the camera to use (using first camera if not specified)'',
      Print '''']"

text \<open>\<^verbatim>\<open>abort(reason, return_code=1, usage=False)\<close>: prints, then \<^verbatim>\<open>sys.exit(return_code)\<close>.\<close>

definition abort :: "string \<Rightarrow> int \<Rightarrow> bool \<Rightarrow> 'a run" where
  "abort reason return_code usage =
     ([Print (reason @ [CHR 0x0A])] @ (if usage then print_usage else []), SysExit return_code)"

text \<open>The loop \<^verbatim>\<open>for arg in args: if arg in ('/h', '-h'): ...\<close>: is some argument a help flag?\<close>

fun help_requested :: "string list \<Rightarrow> bool" where
  "help_requested [] = False"
| "help_requested (arg # args) =
     (if arg = ''/h'' \<or> arg = ''-h'' then True else help_requested args)"

text \<open>\<^verbatim>\<open>parse_args()\<close>; the parameter is \<^verbatim>\<open>sys.argv[1:]\<close>.\<close>

definition parse_args :: "string list \<Rightarrow> string option run" where
  "parse_args args =
     (let argc = length args in
      if help_requested args then (print_usage, SysExit 0)
      else if argc > 1 then abort ''Invalid number of arguments. Abort.'' 2 True
      else ([], Return (if argc = 0 then None else Some (args ! 0))))"

text \<open>
  \<^verbatim>\<open>get_camera(camera_id)\<close>; the first parameter is the list \<^verbatim>\<open>vmb.get_all_cameras()\<close>,
  in which \<^verbatim>\<open>vmb.get_camera_by_id\<close> looks the identifier up (\<^verbatim>\<open>VmbCameraError\<close> when there
  is none). \<^verbatim>\<open>if camera_id:\<close> is false for \<^verbatim>\<open>None\<close> and for the empty string.
\<close>

definition get_camera_by_id :: "Camera list \<Rightarrow> string \<Rightarrow> error + Camera" where
  "get_camera_by_id all_cameras camera_id =
     (case find (\<lambda>c. get_cam_id c = camera_id) all_cameras of
        None \<Rightarrow> Inl VmbCameraError
      | Some c \<Rightarrow> Inr c)"

definition get_camera :: "Camera list \<Rightarrow> string option \<Rightarrow> Camera run" where
  "get_camera all_cameras camera_id =
     (if camera_id \<noteq> None \<and> camera_id \<noteq> Some [] then
        (case get_camera_by_id all_cameras (the camera_id) of
           Inr c \<Rightarrow> ([], Return c)
         | Inl e \<Rightarrow>
             (if e = VmbCameraError
              then abort (''Failed to access Camera '' @ [CHR 0x27] @ the camera_id @ [CHR 0x27]
                            @ ''. Abort.'') 1 False
              else ([], Raise e)))
      else
        (let cams = all_cameras in
         if cams = [] then abort ''No Cameras accessible. Abort.'' 1 False
         else ([], Return (cams ! 0))))"

definition print_preamble :: "effect list" where
  "print_preamble =
     [Print ''///////////////////////////////////////////////////'',
      Print ''/// VmbPy Asynchronous Grab with OpenCV Example ///'',
      Print ''/// BayerRG12 to 12bit TIFF image               ///'',
      Print (''///////////////////////////////////////////////////'' @ [CHR 0x0A])]"

text \<open>
  The first statements of \<^verbatim>\<open>main\<close> of the TIFF script, up to the camera that
  \<^verbatim>\<open>get_camera\<close> hands back (the ROI script differs in the text of the preamble only).
\<close>

definition main_get_camera :: "string list \<Rightarrow> Camera list \<Rightarrow> Camera run" where
  "main_get_camera args all_cameras =
     and_then (print_preamble, Return ()) (\<lambda>_.
     and_then (parse_args args) (\<lambda>cam_id.
     get_camera all_cameras cam_id))"

section \<open>Camera setup: \<^verbatim>\<open>setup_camera\<close>\<close>

definition cam_getattr :: "Camera \<Rightarrow> string \<Rightarrow> error + Feature" where
  "cam_getattr cam name =
     (case features cam name of None \<Rightarrow> Inl AttributeError | Some f \<Rightarrow> Inr f)"

definition get_feature_by_name :: "Camera \<Rightarrow> string \<Rightarrow> error + Feature" where
  "get_feature_by_name cam name =
     (case features cam name of None \<Rightarrow> Inl VmbFeatureError | Some f \<Rightarrow> Inr f)"

definition feature_set :: "string \<Rightarrow> Feature \<Rightarrow> fvalue \<Rightarrow> unit run" where
  "feature_set name f v =
     (if accepts f v then ([FeatureSet name v], Return ()) else ([], Raise VmbFeatureError))"

definition feature_get :: "Feature \<Rightarrow> unit run" where
  "feature_get f = (if readable f then ([], Return ()) else ([], Raise VmbFeatureError))"

text \<open>\<^verbatim>\<open>try: ... except (AttributeError, VmbFeatureError): pass\<close>\<close>

definition except_feature_errors :: "unit run \<Rightarrow> unit run" where
  "except_feature_errors m =
     (case m of (effs, r) \<Rightarrow>
        if r = Raise AttributeError \<or> r = Raise VmbFeatureError then (effs, Return ())
        else (effs, r))"

text \<open>Lines 105--109 of the ROI script: \<^verbatim>\<open>cam.ExposureAuto.set('Off')\<close>.\<close>

definition set_exposure_auto_off :: "Camera \<Rightarrow> unit run" where
  "set_exposure_auto_off cam =
     and_then (lift (cam_getattr cam ''ExposureAuto'')) (\<lambda>exposure_auto.
     feature_set ''ExposureAuto'' exposure_auto (StrVal ''Off''))"

text \<open>Lines 112--136 of the ROI script: exposure time, region of interest, frame rate.\<close>

definition set_exposure_roi_fps :: "Camera \<Rightarrow> unit run" where
  "set_exposure_roi_fps cam =
     and_then (lift (get_feature_by_name cam ''ExposureTime'')) (\<lambda>feature_exp.
     and_then (feature_get feature_exp) (\<lambda>_.
     and_then (feature_set ''ExposureTime'' feature_exp (IntVal 640)) (\<lambda>_.
     and_then (feature_get feature_exp) (\<lambda>_.
     and_then (lift (get_feature_by_name cam ''Width'')) (\<lambda>width.
     and_then (lift (get_feature_by_name cam ''Height'')) (\<lambda>height.
     and_then (feature_set ''Width'' width (IntVal 64)) (\<lambda>_.
     and_then (feature_set ''Height'' height (IntVal 64)) (\<lambda>_.
     and_then (feature_get width) (\<lambda>_.
     and_then (feature_get height) (\<lambda>_.
     and_then (lift (get_feature_by_name cam ''OffsetX'')) (\<lambda>offsetx.
     and_then (lift (get_feature_by_name cam ''OffsetY'')) (\<lambda>offsety.
     and_then (feature_set ''OffsetX'' offsetx (IntVal 600)) (\<lambda>_.
     and_then (feature_set ''OffsetY'' offsety (IntVal 500)) (\<lambda>_.
     and_then (feature_get offsetx) (\<lambda>_.
     and_then (feature_get offsety) (\<lambda>_.
     and_then (lift (get_feature_by_name cam ''AcquisitionFrameRate'')) (\<lambda>fps.
     feature_set ''AcquisitionFrameRate'' fps (FloatVal 11))))))))))))))))))"

text \<open>
  \<^verbatim>\<open>while not stream.GVSPAdjustPacketSize.is_done(): pass\<close>: the number of the first poll
  that answers true; no value when every poll answers false and the loop spins for ever.
\<close>

partial_function (option) poll_is_done :: "(nat \<Rightarrow> bool) \<Rightarrow> nat \<Rightarrow> nat option" where
  "poll_is_done answers i = (if answers i then Some i else poll_is_done answers (Suc i))"

text \<open>
  Lines 151--155 of the ROI script, without the handler around them:
  \<^verbatim>\<open>cam.get_streams()[0]\<close>, the command's \<^verbatim>\<open>run()\<close>, the polling loop.
\<close>

definition adjust_packet_size :: "Camera \<Rightarrow> unit run option" where
  "adjust_packet_size cam =
     (case get_streams cam of
        [] \<Rightarrow> Some ([], Raise IndexError)
      | stream # _ \<Rightarrow>
          (case GVSPAdjustPacketSize stream of
             None \<Rightarrow> Some ([], Raise AttributeError)
           | Some cmd \<Rightarrow>
               if \<not> runs cmd then Some ([], Raise VmbFeatureError)
               else (case poll_is_done (is_done cmd) 0 of
                       None \<Rightarrow> None
                     | Some _ \<Rightarrow> Some ([CommandRun ''GVSPAdjustPacketSize''], Return ()))))"

text \<open>\<^verbatim>\<open>setup_camera(cam)\<close> of the ROI script: three guarded blocks, one after the other.\<close>

definition setup_camera :: "Camera \<Rightarrow> unit run option" where
  "setup_camera cam =
     (case and_then (except_feature_errors (set_exposure_auto_off cam)) (\<lambda>_.
             except_feature_errors (set_exposure_roi_fps cam)) of
        (effs, Return _) \<Rightarrow>
          (case adjust_packet_size cam of
             None \<Rightarrow> None
           | Some m \<Rightarrow> Some (and_then (effs, Return ()) (\<lambda>_. except_feature_errors m)))
      | (effs, Raise e) \<Rightarrow> Some (effs, Raise e)
      | (effs, SysExit c) \<Rightarrow> Some (effs, SysExit c))"

text \<open>
  Lines 148--157 of \<^verbatim>\<open>synchronous_grab_dark_current.py\<close>, in \<^verbatim>\<open>main\<close>: the pixel format
  and the fixed pattern noise correction are set with no handler around the statements.
\<close>

definition dark_current_configure :: "Camera \<Rightarrow> unit run" where
  "dark_current_configure cam =
     and_then ([SetPixelFormat Mono12], Return ()) (\<lambda>_.
     and_then (lift (get_feature_by_name cam ''CorrectionSelector'')) (\<lambda>corrName.
     and_then (feature_set ''CorrectionSelector'' corrName
                 (StrVal ''FixedPatternNoiseCorrection'')) (\<lambda>_.
     and_then (lift (get_feature_by_name cam ''CorrectionMode'')) (\<lambda>corrMode.
     feature_set ''CorrectionMode'' corrMode (StrVal ''Off'')))))"

text \<open>The outcomes a handler for \<^verbatim>\<open>(AttributeError, VmbFeatureError)\<close> turns into a return.\<close>

definition recoverable :: "'a outcome \<Rightarrow> bool" where
  "recoverable r =
     (case r of
        Return _ \<Rightarrow> True
      | Raise e \<Rightarrow> e = AttributeError \<or> e = VmbFeatureError
      | SysExit _ \<Rightarrow> False)"

text \<open>
  The effects of camera setup: a feature of the camera set to a value it accepts, or a
  command run.
\<close>

fun accepted_setting :: "Camera \<Rightarrow> effect \<Rightarrow> bool" where
  "accepted_setting cam (FeatureSet name v) =
     (case features cam name of None \<Rightarrow> False | Some f \<Rightarrow> accepts f v)"
| "accepted_setting cam (CommandRun name) = True"
| "accepted_setting cam e = False"

section \<open>Pixel format negotiation: \<^verbatim>\<open>setup_pixel_format\<close>\<close>

text \<open>
  \<^verbatim>\<open>tuple(f for f in fmts if opencv_display_format in f.get_convertible_formats())\<close>
\<close>

definition convertible_formats :: "vmbpy_formats \<Rightarrow> PixelFormat list \<Rightarrow> PixelFormat list" where
  "convertible_formats V fmts =
     filter (\<lambda>f. opencv_display_format \<in> set (get_convertible_formats V f)) fmts"

text \<open>\<^verbatim>\<open>setup_pixel_format(cam)\<close> of \<^verbatim>\<open>asynchronous_grab_opencv_12bit_rgb_tiff.py\<close>.\<close>

definition setup_pixel_format :: "vmbpy_formats \<Rightarrow> Camera \<Rightarrow> unit run" where
  "setup_pixel_format V cam =
     (let cam_formats = get_pixel_formats cam;
          cam_color_formats = intersect_pixel_formats V cam_formats (COLOR_PIXEL_FORMATS V);
          convertible_color_formats = convertible_formats V cam_color_formats;
          cam_mono_formats = intersect_pixel_formats V cam_formats (MONO_PIXEL_FORMATS V);
          convertible_mono_formats = convertible_formats V cam_mono_formats
      in if opencv_display_format \<in> set cam_formats then
           ([SetPixelFormat opencv_display_format], Return ())
         else if convertible_color_formats \<noteq> [] then
           ([SetPixelFormat (convertible_color_formats ! 0)], Return ())
         else if convertible_mono_formats \<noteq> [] then
           ([SetPixelFormat (convertible_mono_formats ! 0)], Return ())
         else abort ''Camera does not support an OpenCV compatible format. Abort.'' 1 False)"

text \<open>
  \<^verbatim>\<open>setup_pixel_format(cam)\<close> of \<^verbatim>\<open>asynchronous_grab_opencv_roi.py\<close>: the monochrome
  branch sets \<^verbatim>\<open>convertible_mono_formats[2]\<close>, which raises \<^verbatim>\<open>IndexError\<close> on a tuple of
  fewer than three formats.
\<close>

definition setup_pixel_format_roi :: "vmbpy_formats \<Rightarrow> Camera \<Rightarrow> unit run" where
  "setup_pixel_format_roi V cam =
     (let cam_formats = get_pixel_formats cam;
          cam_color_formats = intersect_pixel_formats V cam_formats (COLOR_PIXEL_FORMATS V);
          convertible_color_formats = convertible_formats V cam_color_formats;
          cam_mono_formats = intersect_pixel_formats V cam_formats (MONO_PIXEL_FORMATS V);
          convertible_mono_formats = convertible_formats V cam_mono_formats
      in if opencv_display_format \<in> set cam_formats then
           ([SetPixelFormat opencv_display_format], Return ())
         else if convertible_color_formats \<noteq> [] then
           ([SetPixelFormat (convertible_color_formats ! 0)], Return ())
         else if convertible_mono_formats \<noteq> [] then
           (if 2 < length convertible_mono_formats
            then ([SetPixelFormat (convertible_mono_formats ! 2)], Return ())
            else ([], Raise IndexError))
         else abort ''Camera does not support an OpenCV compatible format. Abort.'' 1 False)"

text \<open>
  \<^verbatim>\<open>main\<close> of the ROI script from \<^verbatim>\<open>setup_camera(cam)\<close> to
  \<^verbatim>\<open>cam.start_streaming(handler=handler, buffer_count=10)\<close>.
\<close>

definition main_roi_start :: "vmbpy_formats \<Rightarrow> Camera \<Rightarrow> unit run option" where
  "main_roi_start V cam =
     (case setup_camera cam of
        None \<Rightarrow> None
      | Some m \<Rightarrow>
          Some (and_then m (\<lambda>_.
                and_then (setup_pixel_format_roi V cam) (\<lambda>_.
                ([StartStreaming 10], Return ())))))"

text \<open>
  The selection order in the words of the specification: the target format when the camera
  has it, otherwise the first convertible colour format, otherwise the first convertible
  monochrome format, otherwise nothing.
\<close>

definition negotiated_format :: "vmbpy_formats \<Rightarrow> PixelFormat \<Rightarrow> PixelFormat list \<Rightarrow> PixelFormat option" where
  "negotiated_format V target cam_formats =
     (if target \<in> set cam_formats then Some target
      else
        (case find (\<lambda>f. target \<in> set (get_convertible_formats V f))
                (intersect_pixel_formats V cam_formats (COLOR_PIXEL_FORMATS V)) of
           Some f \<Rightarrow> Some f
         | None \<Rightarrow>
             find (\<lambda>f. target \<in> set (get_convertible_formats V f))
               (intersect_pixel_formats V cam_formats (MONO_PIXEL_FORMATS V))))"

section \<open>The acquisition callback of the TIFF script: \<^verbatim>\<open>Handler.__call__\<close>\<close>

text \<open>
  \<^verbatim>\<open>np.frombuffer(buf, dtype=np.uint16)\<close>: numpy refuses a buffer whose length is not a
  multiple of the two bytes of a sample; otherwise each pair of bytes is one sample, low byte
  first (the byte order of the machines the camera SDK runs on).
\<close>

fun uint16_samples :: "8 word list \<Rightarrow> 16 word list" where
  "uint16_samples (lo # hi # rest) = (ucast lo OR push_bit 8 (ucast hi)) # uint16_samples rest"
| "uint16_samples rest = []"

definition np_frombuffer_uint16 :: "8 word list \<Rightarrow> error + 16 word list" where
  "np_frombuffer_uint16 buf =
     (if length buf mod 2 \<noteq> 0 then Inl (ValueError BufferNotMultipleOfElementSize)
      else Inr (uint16_samples buf))"

text \<open>\<^verbatim>\<open>a.reshape((h, w))\<close>: row \<open>r\<close> holds the samples \<open>r * w\<close> to \<open>r * w + w - 1\<close>.\<close>

definition reshape :: "'a list \<Rightarrow> nat \<Rightarrow> nat \<Rightarrow> error + 'a list list" where
  "reshape a h w =
     (if length a \<noteq> h * w then Inl (ValueError CannotReshape)
      else Inr (map (\<lambda>r. take w (drop (r * w) a)) [0..<h]))"

text \<open>\<^verbatim>\<open>img[r, c]\<close> with non-negative indices: \<^verbatim>\<open>IndexError\<close> outside the grid.\<close>

definition at2 :: "'a list list \<Rightarrow> nat \<Rightarrow> nat \<Rightarrow> error + 'a" where
  "at2 img r c =
     (if r < length img \<and> c < length (img ! r) then Inr (img ! r ! c) else Inl IndexError)"

text \<open>\<^verbatim>\<open>(img << 4).astype(np.uint16)\<close>: the shift of 16-bit samples, high bits dropped.\<close>

definition shift_left_4 :: "bayer_image \<Rightarrow> bayer_image" where
  "shift_left_4 img = map (map (\<lambda>v. push_bit 4 v)) img"

text \<open>
  Lines 170--196: from the frame's buffer to the shifted sample grid that is handed to
  the demosaicing. The three samples read at \<open>(0,0)\<close>, \<open>(100,100)\<close> and \<open>(200,200)\<close> before and
  after the shift are only printed, but reading them can raise.
\<close>

definition bayer_image_16bit :: "Frame \<Rightarrow> error + bayer_image" where
  "bayer_image_16bit frame =
     (let height = get_height frame; width = get_width frame in
      then_do (np_frombuffer_uint16 (get_buffer frame)) (\<lambda>bayer_raw_data.
        if get_buffer_size frame \<noteq> width * height * 2 then
          Inl (ValueError (SizeMismatchBytes (width * height * 2) (get_buffer_size frame)))
        else if length bayer_raw_data \<noteq> width * height then
          Inl (ValueError (SizeMismatchSamples (width * height) (length bayer_raw_data)))
        else
          then_do (reshape bayer_raw_data height width) (\<lambda>img.
          then_do (at2 img 0 0) (\<lambda>_.
          then_do (at2 img 100 100) (\<lambda>_.
          then_do (at2 img 200 200) (\<lambda>_.
          let shifted = shift_left_4 img in
          then_do (at2 shifted 0 0) (\<lambda>_.
          then_do (at2 shifted 100 100) (\<lambda>_.
          then_do (at2 shifted 200 200) (\<lambda>_.
          Inr shifted)))))))))"

text \<open>\<^verbatim>\<open>str(n)\<close> for a frame identifier.\<close>

fun str_nat :: "nat \<Rightarrow> string" where
  "str_nat n =
     (if n < 10 then [char_of (48 + n)]
      else str_nat (n div 10) @ [char_of (48 + n mod 10)])"

text \<open>Lines 169--219: demosaic the shifted grid and write \<^verbatim>\<open>output_<id>.tiff\<close>.\<close>

definition save_tiff :: "library \<Rightarrow> Frame \<Rightarrow> unit run" where
  "save_tiff lib frame =
     and_then (lift (bayer_image_16bit frame)) (\<lambda>shifted.
     and_then (lift (cvtColor_BAYER_RG2RGB_EA lib shifted)) (\<lambda>rgb_image.
     ([ImWrite (''output_'' @ str_nat (get_id frame) @ ''.tiff'') rgb_image], Return ())))"

text \<open>Lines 161--219: the frame to display.\<close>

definition display_frame :: "library \<Rightarrow> Frame \<Rightarrow> Frame run" where
  "display_frame lib frame =
     (if get_pixel_format frame = opencv_display_format then ([], Return frame)
      else
        and_then (lift (convert_pixel_format lib frame opencv_display_format)) (\<lambda>display.
        and_then (save_tiff lib frame) (\<lambda>_.
        ([], Return display))))"

text \<open>
  \<^verbatim>\<open>Handler.__call__(cam, stream, frame)\<close> of the TIFF script; \<open>key\<close> is what
  \<^verbatim>\<open>cv2.waitKey(1)\<close> returns.
\<close>

definition Handler_call :: "library \<Rightarrow> int \<Rightarrow> Frame \<Rightarrow> unit run" where
  "Handler_call lib key frame =
     (if key = ENTER_KEY_CODE then ([ShutdownEventSet], Return ())
      else
        and_then
          (if get_status frame = Complete then
             and_then (display_frame lib frame) (\<lambda>display.
             and_then (lift (as_opencv_image lib display)) (\<lambda>img.
             ([ImShow img], Return ())))
           else ([], Return ()))
          (\<lambda>_. ([QueueFrame frame], Return ())))"

text \<open>How often a run hands the frame back to the driver.\<close>

definition requeue_count :: "Frame \<Rightarrow> effect list \<Rightarrow> nat" where
  "requeue_count frame effs = length (filter (\<lambda>e. e = QueueFrame frame) effs)"

section \<open>The bounded frame queue and the callback of the ROI script\<close>

text \<open>
  Modelled from the spec: \<^verbatim>\<open>queue.Queue\<close> is a class of Python's standard library, not of
  the repository. Following section 4.1, a queue has a fixed capacity; \<^verbatim>\<open>put(item, True)\<close>
  blocks the caller while the queue is full and then inserts at the tail; \<^verbatim>\<open>get(True)\<close>
  blocks while it is empty and then removes and returns the head. A call that blocks has no
  result here and changes nothing. (Python treats a capacity of 0 as unbounded.)
\<close>

record 'a Queue =
  maxsize :: nat
  items :: "'a list"

definition Queue :: "nat \<Rightarrow> 'a Queue" where
  "Queue n = \<lparr>maxsize = n, items = []\<rparr>"

definition Queue_put :: "'a Queue \<Rightarrow> 'a \<Rightarrow> 'a Queue option" where
  "Queue_put q x =
     (if 0 < maxsize q \<and> maxsize q \<le> length (items q) then None
      else Some (q\<lparr>items := items q @ [x]\<rparr>))"

definition Queue_get :: "'a Queue \<Rightarrow> ('a \<times> 'a Queue) option" where
  "Queue_get q =
     (case items q of [] \<Rightarrow> None | x # rest \<Rightarrow> Some (x, q\<lparr>items := rest\<rparr>))"

text \<open>The class \<^verbatim>\<open>Handler\<close> of \<^verbatim>\<open>asynchronous_grab_opencv_roi.py\<close>.\<close>

record Handler =
  display_queue :: "Frame Queue"

definition Handler_init :: Handler where
  "Handler_init = \<lparr>display_queue = Queue 10\<rparr>"

definition Handler_get_image :: "Handler \<Rightarrow> (Frame \<times> Handler) option" where
  "Handler_get_image self =
     (case Queue_get (display_queue self) of
        None \<Rightarrow> None
      | Some (frame, q) \<Rightarrow> Some (frame, self\<lparr>display_queue := q\<rparr>))"

text \<open>
  \<^verbatim>\<open>Handler.__call__\<close> of the ROI script. No result: the callback is blocked in
  \<^verbatim>\<open>put\<close> and has not reached \<^verbatim>\<open>cam.queue_frame(frame)\<close>.
\<close>

definition Handler_call_roi :: "Handler \<Rightarrow> Frame \<Rightarrow> (Handler \<times> effect list) option" where
  "Handler_call_roi self frame =
     (if get_status frame = Complete then
        (case Queue_put (display_queue self) frame of
           None \<Rightarrow> None
         | Some q \<Rightarrow> Some (self\<lparr>display_queue := q\<rparr>, [QueueFrame frame]))
      else Some (self, [QueueFrame frame]))"

text \<open>
  The two threads meet only at the queue. A schedule lists the calls in the order in which
  they complete: the capture thread's callback for a frame, the main thread's
  \<^verbatim>\<open>get_image\<close>. A call that would block cannot be the next to complete, so a schedule
  with such a call has no result. The result is the handler, the effects of the callbacks
  and the frames \<^verbatim>\<open>get_image\<close> returned, in order.
\<close>

datatype roi_call = Callback Frame | GetImage

fun run_schedule :: "Handler \<Rightarrow> roi_call list \<Rightarrow> (Handler \<times> effect list \<times> Frame list) option" where
  "run_schedule self [] = Some (self, [], [])"
| "run_schedule self (Callback frame # calls) =
     (case Handler_call_roi self frame of
        None \<Rightarrow> None
      | Some (self', effs) \<Rightarrow>
          (case run_schedule self' calls of
             None \<Rightarrow> None
           | Some (self'', effs', got) \<Rightarrow> Some (self'', effs @ effs', got)))"
| "run_schedule self (GetImage # calls) =
     (case Handler_get_image self of
        None \<Rightarrow> None
      | Some (frame, self') \<Rightarrow>
          (case run_schedule self' calls of
             None \<Rightarrow> None
           | Some (self'', effs', got) \<Rightarrow> Some (self'', effs', frame # got)))"

text \<open>The frames a schedule pushes: those delivered with status \<^verbatim>\<open>Complete\<close>, in order.\<close>

fun pushed :: "roi_call list \<Rightarrow> Frame list" where
  "pushed [] = []"
| "pushed (Callback frame # calls) =
     (if get_status frame = Complete then frame # pushed calls else pushed calls)"
| "pushed (GetImage # calls) = pushed calls"

section \<open>The consumer loop of the ROI script\<close>

text \<open>Lines 257--279: the body of the loop after \<^verbatim>\<open>frame = handler.get_image()\<close>.\<close>

definition process_frame :: "library \<Rightarrow> Frame \<Rightarrow> unit run" where
  "process_frame lib frame =
     and_then
       (if get_pixel_format frame = opencv_display_format then ([], Return frame)
        else lift (convert_pixel_format lib frame opencv_display_format)) (\<lambda>display.
     and_then (lift (as_opencv_image lib frame)) (\<lambda>img_opencv.
     and_then (lift (as_numpy_ndarray lib frame)) (\<lambda>img_numpy.
     let mean_value = np_mean lib img_numpy;
         total_sum = np_sum lib img_numpy
     in ([FileWrite mean_value total_sum, ImShow img_opencv], Return ()))))"

text \<open>
  Lines 249--283 as a machine of the main thread: it stands before \<^verbatim>\<open>cv2.waitKey(1)\<close>,
  or inside \<^verbatim>\<open>handler.get_image()\<close>, or has left the loop (by \<^verbatim>\<open>break\<close> or by an
  exception; the \<^verbatim>\<open>finally\<close> block then closes the file and stops streaming). A step takes
  the key that \<^verbatim>\<open>waitKey\<close> would return now. No step: the thread is blocked in
  \<^verbatim>\<open>get\<close>, or the loop is over.
\<close>

datatype loop_pc = AtWaitKey | AtGetImage | Left "unit outcome"

record main_loop =
  pc :: loop_pc
  handler :: Handler
  effects :: "effect list"

definition main_loop_step :: "library \<Rightarrow> int \<Rightarrow> main_loop \<Rightarrow> main_loop option" where
  "main_loop_step lib key s =
     (case pc s of
        AtWaitKey \<Rightarrow>
          Some (if key = ENTER_KEY_CODE
                then s\<lparr>pc := Left (Return ()),
                       effects := effects s @ [DestroyWindow, FileClose, StopStreaming]\<rparr>
                else s\<lparr>pc := AtGetImage\<rparr>)
      | AtGetImage \<Rightarrow>
          (case Handler_get_image (handler s) of
             None \<Rightarrow> None
           | Some (frame, self') \<Rightarrow>
               (case process_frame lib frame of
                  (effs, Return _) \<Rightarrow>
                    Some (s\<lparr>pc := AtWaitKey, handler := self', effects := effects s @ effs\<rparr>)
                | (effs, r) \<Rightarrow>
                    Some (s\<lparr>pc := Left r, handler := self',
                           effects := effects s @ effs @ [FileClose, StopStreaming]\<rparr>)))
      | Left r \<Rightarrow> None)"

section \<open>Sample inputs\<close>

text \<open>Concrete tables, cameras and frames on which the theorems below are exercised.\<close>

definition example_formats :: vmbpy_formats where
  "example_formats =
     \<lparr>COLOR_PIXEL_FORMATS =
        [BayerGR8, BayerRG8, BayerGB8, BayerBG8, BayerGR12, BayerRG12, BayerGB12, BayerBG12,
         Rgb8, Bgr8, Rgba8, Bgra8, Rgb16, Bgr16, Yuv422],
      MONO_PIXEL_FORMATS = [Mono8, Mono10, Mono12, Mono14, Mono16],
      get_convertible_formats = (\<lambda>f. if f = Mono16 then [Mono8] else [Mono8, Rgb8, Bgr8]),
      intersect_pixel_formats = (\<lambda>fmts1 fmts2. filter (\<lambda>f. f \<in> set fmts2) fmts1)\<rparr>"

definition example_library :: library where
  "example_library =
     \<lparr>convert_pixel_format = (\<lambda>frame fmt. Inr (frame\<lparr>get_pixel_format := fmt\<rparr>)),
      as_opencv_image = (\<lambda>frame. Inr [[map unat (get_buffer frame)]]),
      as_numpy_ndarray = (\<lambda>frame. Inr [[map unat (get_buffer frame)]]),
      np_mean = (\<lambda>a. 0),
      np_sum = (\<lambda>a. int (sum_list (concat (concat a)))),
      cvtColor_BAYER_RG2RGB_EA = (\<lambda>img. Inr (map (map (\<lambda>v. [v, v, v])) img))\<rparr>"

definition any_feature :: Feature where
  "any_feature = \<lparr>readable = True, accepts = (\<lambda>v. True)\<rparr>"

definition gige_stream :: Stream where
  "gige_stream = \<lparr>GVSPAdjustPacketSize = Some \<lparr>runs = True, is_done = (\<lambda>i. 2 \<le> i)\<rparr>\<rparr>"

definition usb_stream :: Stream where
  "usb_stream = \<lparr>GVSPAdjustPacketSize = None\<rparr>"

text \<open>A GigE colour camera with every feature the scripts touch.\<close>

definition camera_gige :: Camera where
  "camera_gige =
     \<lparr>get_cam_id = ''DEV_1'', get_name = ''GigE colour'',
      get_pixel_formats = [Mono8, BayerRG12],
      features = (\<lambda>name. Some any_feature),
      get_streams = [gige_stream]\<rparr>"

text \<open>A USB monochrome camera with none of the optional features.\<close>

definition camera_mono :: Camera where
  "camera_mono =
     \<lparr>get_cam_id = ''DEV_2'', get_name = ''USB mono'',
      get_pixel_formats = [Mono8, Mono10, Mono12],
      features = (\<lambda>name. None),
      get_streams = [usb_stream]\<rparr>"

text \<open>A camera whose only format cannot be converted to the display format.\<close>

definition camera_mono16 :: Camera where
  "camera_mono16 =
     \<lparr>get_cam_id = ''DEV_3'', get_name = ''USB mono16'',
      get_pixel_formats = [Mono16],
      features = (\<lambda>name. None),
      get_streams = [usb_stream]\<rparr>"

text \<open>The 2 x 2 grid \<open>[100, 200, 300, 400]\<close> of 16-bit samples, low byte first.\<close>

definition frame_2x2 :: Frame where
  "frame_2x2 =
     \<lparr>get_id = 7, get_status = Complete, get_pixel_format = BayerRG12,
      get_width = 2, get_height = 2,
      get_buffer = [100, 0, 200, 0, 44, 1, 144, 1]\<rparr>"

text \<open>The same frame with a buffer one byte short of \<open>2 * 2 * 2\<close>.\<close>

definition frame_short :: Frame where
  "frame_short = frame_2x2\<lparr>get_buffer := [100, 0, 200, 0, 44, 1, 144]\<rparr>"

text \<open>The same frame with a buffer two bytes short.\<close>

definition frame_shorter :: Frame where
  "frame_shorter = frame_2x2\<lparr>get_buffer := [100, 0, 200, 0, 44, 1]\<rparr>"

definition frame_bgr :: Frame where
  "frame_bgr =
     \<lparr>get_id = 8, get_status = Complete, get_pixel_format = Bgr8,
      get_width = 1, get_height = 1, get_buffer = [10, 20, 30]\<rparr>"

definition frame_incomplete :: Frame where
  "frame_incomplete = frame_bgr\<lparr>get_id := 9, get_status := Incomplete\<rparr>"

section \<open>Sequencing lemmas\<close>

lemma and_then_Return [simp]: "and_then (effs, Return x) f = (effs @ fst (f x), snd (f x))"
  by (simp add: and_then_def split: prod.splits)

lemma and_then_Raise [simp]: "and_then (effs, Raise e) f = (effs, Raise e)"
  by (simp add: and_then_def)

lemma and_then_SysExit [simp]: "and_then (effs, SysExit c) f = (effs, SysExit c)"
  by (simp add: and_then_def)

lemma lift_Inl [simp]: "lift (Inl e) = ([], Raise e)"
  by (simp add: lift_def)

lemma lift_Inr [simp]: "lift (Inr x) = ([], Return x)"
  by (simp add: lift_def)


section \<open>The command line\<close>

lemma help_requested_iff:
  "help_requested args \<longleftrightarrow> ''/h'' \<in> set args \<or> ''-h'' \<in> set args"
  by (induction args) auto

text \<open>
  C10. In \<^verbatim>\<open>parse_args\<close> the scan for the help flags runs over all arguments before the
  argument count is checked: an invocation with more than one argument, one of which is
  \<^verbatim>\<open>-h\<close> or \<^verbatim>\<open>/h\<close>, prints the usage and exits with code 0; it does not abort with
  code 2.
\<close>

theorem parse_args_help_before_count:
  assumes "1 < length args" and "''-h'' \<in> set args \<or> ''/h'' \<in> set args"
  shows "parse_args args = (print_usage, SysExit 0) \<and> snd (parse_args args) \<noteq> SysExit 2"
  using assms by (auto simp: parse_args_def help_requested_iff)

theorem parse_args_help_before_count_witness:
  "1 < length [''DEV_1'', ''DEV_2'', ''-h'']
   \<and> parse_args [''DEV_1'', ''DEV_2'', ''-h''] = (print_usage, SysExit 0)
   \<and> snd (parse_args [''DEV_1'', ''DEV_2'', ''-h'']) \<noteq> SysExit 2"
  using parse_args_help_before_count [of "[''DEV_1'', ''DEV_2'', ''-h'']"] by simp

text \<open>
  C7 as stated fails where its clauses overlap: with the two arguments \<^verbatim>\<open>/h DEV_1\<close> the
  program exits with code 0, although there is more than one argument.
\<close>

theorem command_line_counterexample:
  "1 < length [''/h'', ''DEV_1''] \<and> snd (parse_args [''/h'', ''DEV_1'']) = SysExit 0"
  by (simp add: parse_args_def)

text \<open>
  C7, amended. An argument equal to \<^verbatim>\<open>-h\<close> or \<^verbatim>\<open>/h\<close> prints the usage and exits
  with code 0; more than one argument, none of them a help flag, aborts with exit code 2 after
  the reason and the usage; no argument gives no camera identifier, and \<^verbatim>\<open>main\<close> then takes
  the first enumerated camera, or aborts with exit code 1 when no camera is accessible.
\<close>

theorem command_line:
  "(''-h'' \<in> set args \<or> ''/h'' \<in> set args \<longrightarrow> parse_args args = (print_usage, SysExit 0))
   \<and> (''-h'' \<notin> set args \<and> ''/h'' \<notin> set args \<and> 1 < length args \<longrightarrow>
        parse_args args =
          (Print (''Invalid number of arguments. Abort.'' @ [CHR 0x0A]) # print_usage, SysExit 2))
   \<and> parse_args [] = ([], Return None)
   \<and> (cams \<noteq> [] \<longrightarrow> main_get_camera [] cams = (print_preamble, Return (hd cams)))
   \<and> main_get_camera [] [] =
        (print_preamble @ [Print (''No Cameras accessible. Abort.'' @ [CHR 0x0A])], SysExit 1)"
  by (auto simp: parse_args_def help_requested_iff abort_def main_get_camera_def
        get_camera_def hd_conv_nth)

theorem command_line_witness:
  "parse_args [''-h''] = (print_usage, SysExit 0)
   \<and> parse_args [''DEV_1'', ''DEV_2''] =
        (Print (''Invalid number of arguments. Abort.'' @ [CHR 0x0A]) # print_usage, SysExit 2)
   \<and> main_get_camera [] [camera_gige, camera_mono] = (print_preamble, Return camera_gige)"
  using command_line [of "[''-h'']" "[camera_gige, camera_mono]"]
        command_line [of "[''DEV_1'', ''DEV_2'']" "[camera_gige, camera_mono]"]
  by simp

section \<open>The acquisition callbacks\<close>

lemma requeue_count_simps [simp]:
  "requeue_count frame [] = 0"
  "requeue_count frame (effs @ effs') = requeue_count frame effs + requeue_count frame effs'"
  "requeue_count frame (e # effs) = (if e = QueueFrame frame then 1 else 0) + requeue_count frame effs"
  by (simp_all add: requeue_count_def)

lemma save_tiff_cases:
  "(\<exists>e. save_tiff lib frame = ([], Raise e))
   \<or> (\<exists>path img. save_tiff lib frame = ([ImWrite path img], Return ()))"
proof (cases "bayer_image_16bit frame")
  case (Inl e)
  then show ?thesis by (simp add: save_tiff_def)
next
  case (Inr shifted)
  then show ?thesis
    by (cases "cvtColor_BAYER_RG2RGB_EA lib shifted") (simp_all add: save_tiff_def)
qed

lemma save_tiff_requeue: "requeue_count frame (fst (save_tiff lib frame')) = 0"
  using save_tiff_cases [of lib frame'] by auto

lemma display_frame_requeue: "requeue_count frame (fst (display_frame lib frame')) = 0"
proof (cases "get_pixel_format frame' = opencv_display_format")
  case True
  then show ?thesis by (simp add: display_frame_def)
next
  case False
  show ?thesis
  proof (cases "convert_pixel_format lib frame' opencv_display_format")
    case (Inl e)
    with False show ?thesis by (simp add: display_frame_def)
  next
    case (Inr display)
    obtain effs r where s: "save_tiff lib frame' = (effs, r)" by (cases "save_tiff lib frame'")
    with save_tiff_requeue [of frame lib frame'] have "requeue_count frame effs = 0" by simp
    with False Inr s show ?thesis
      by (cases r) (simp_all add: display_frame_def)
  qed
qed

text \<open>
  C1, amended. The callback of the TIFF script hands the frame back to the driver exactly
  once when the shutdown key was not observed and the callback returns normally, whatever the
  frame's status and whichever conversion branch ran, and not at all when the key was
  observed or processing raised an exception; it never hands it back twice. The callback of
  the ROI script hands the frame back exactly once whenever it returns.
\<close>

theorem requeue_once:
  "requeue_count frame (fst (Handler_call lib key frame)) =
     (if key \<noteq> ENTER_KEY_CODE \<and> snd (Handler_call lib key frame) = Return () then 1 else 0)
   \<and> (Handler_call_roi self frame = Some (self', effs) \<longrightarrow> requeue_count frame effs = 1)"
proof
  show "requeue_count frame (fst (Handler_call lib key frame)) =
     (if key \<noteq> ENTER_KEY_CODE \<and> snd (Handler_call lib key frame) = Return () then 1 else 0)"
  proof (cases "key = ENTER_KEY_CODE")
    case True
    then show ?thesis by (simp add: Handler_call_def)
  next
    case key: False
    show ?thesis
    proof (cases "get_status frame = Complete")
      case False
      with key show ?thesis by (simp add: Handler_call_def)
    next
      case True
      obtain effs r where d: "display_frame lib frame = (effs, r)"
        by (cases "display_frame lib frame")
      with display_frame_requeue [of frame lib frame] have z: "requeue_count frame effs = 0"
        by simp
      show ?thesis
      proof (cases r)
        case (Return display)
        with key True d z show ?thesis
          by (cases "as_opencv_image lib display") (simp_all add: Handler_call_def)
      next
        case (Raise e)
        with key True d z show ?thesis by (simp add: Handler_call_def)
      next
        case (SysExit c)
        with key True d z show ?thesis by (simp add: Handler_call_def)
      qed
    qed
  qed
next
  show "Handler_call_roi self frame = Some (self', effs) \<longrightarrow> requeue_count frame effs = 1"
    by (auto simp: Handler_call_roi_def split: if_splits option.splits)
qed

theorem requeue_once_witness:
  "requeue_count frame_incomplete (fst (Handler_call example_library 0 frame_incomplete)) = 1
   \<and> requeue_count frame_bgr [QueueFrame frame_bgr] = 1"
proof -
  have r: "snd (Handler_call example_library 0 frame_incomplete) = Return ()"
    by (simp add: Handler_call_def ENTER_KEY_CODE_def frame_incomplete_def frame_bgr_def)
  have q: "Handler_call_roi Handler_init frame_bgr
             = Some (\<lparr>display_queue = \<lparr>maxsize = 10, items = [frame_bgr]\<rparr>\<rparr>,
                     [QueueFrame frame_bgr])"
    by (simp add: Handler_call_roi_def Handler_init_def Queue_def Queue_put_def frame_bgr_def)
  from requeue_once [of frame_incomplete example_library 0 Handler_init]
    requeue_once [of frame_bgr example_library 0 Handler_init] r q
  show ?thesis by (simp add: ENTER_KEY_CODE_def)
qed

text \<open>
  C1 as stated fails: when \<^verbatim>\<open>cv2.waitKey\<close> returns the Enter key, the callback of the
  TIFF script sets the shutdown event and returns without \<^verbatim>\<open>cam.queue_frame(frame)\<close>.
\<close>

theorem requeue_once_counterexample:
  "Handler_call example_library 13 frame_bgr = ([ShutdownEventSet], Return ())
   \<and> requeue_count frame_bgr (fst (Handler_call example_library 13 frame_bgr)) = 0"
  by (simp add: Handler_call_def ENTER_KEY_CODE_def)

text \<open>
  C2. A raw frame whose buffer is one byte short of \<open>width * height * 2\<close> enters the
  conversion path, but the error it gets is numpy's own: \<^verbatim>\<open>np.frombuffer\<close> runs before
  the size check and refuses the odd length, so the message with the expected and the actual
  size is not produced. No demosaicing and no file write happens.
\<close>

theorem one_byte_short:
  "get_buffer_size frame_short = 7 \<and> get_width frame_short * get_height frame_short * 2 = 8
   \<and> Handler_call example_library 0 frame_short
       = ([], Raise (ValueError BufferNotMultipleOfElementSize))"
  by (simp add: Handler_call_def ENTER_KEY_CODE_def frame_short_def frame_2x2_def
        example_library_def display_frame_def opencv_display_format_def save_tiff_def
        bayer_image_16bit_def np_frombuffer_uint16_def then_do_def get_buffer_size_def)

text \<open>A buffer of even length that is too short does reach the size check of line 176.\<close>

lemma two_bytes_short:
  "Handler_call example_library 0 frame_shorter
       = ([], Raise (ValueError (SizeMismatchBytes 8 6)))"
  by (simp add: Handler_call_def ENTER_KEY_CODE_def frame_shorter_def frame_2x2_def
        example_library_def display_frame_def opencv_display_format_def save_tiff_def
        bayer_image_16bit_def np_frombuffer_uint16_def then_do_def get_buffer_size_def)

text \<open>
  C4. The 2 x 2 buffer \<open>[100, 200, 300, 400]\<close> is read and reshaped to
  \<open>[[100, 200], [300, 400]]\<close>, but the shift is never reached: the sample printed from
  position \<open>(100, 100)\<close> is outside the grid and the callback ends with \<^verbatim>\<open>IndexError\<close>.
\<close>

theorem scenario_2x2:
  "np_frombuffer_uint16 (get_buffer frame_2x2) = Inr [100, 200, 300, 400]
   \<and> reshape [100, 200, 300, 400 :: 16 word] 2 2 = Inr [[100, 200], [300, 400]]
   \<and> at2 [[100, 200], [300, 400 :: 16 word]] 100 100 = Inl IndexError
   \<and> bayer_image_16bit frame_2x2 = Inl IndexError
   \<and> Handler_call example_library 0 frame_2x2 = ([], Raise IndexError)"
  by (simp add: Handler_call_def ENTER_KEY_CODE_def frame_2x2_def
        example_library_def display_frame_def opencv_display_format_def save_tiff_def
        bayer_image_16bit_def np_frombuffer_uint16_def then_do_def get_buffer_size_def
        reshape_def at2_def upt_rec)

text \<open>The shift itself, on the grid of the scenario and on any 12-bit sample.\<close>

lemma shift_left_4_scenario:
  "shift_left_4 [[100, 200], [300, 400]] = [[1600, 3200], [4800, 6400]]"
  by (simp add: shift_left_4_def)

lemma shift_left_4_exact:
  fixes v :: "16 word"
  assumes "unat v < 4096"
  shows "unat (push_bit 4 v) = 16 * unat v"
  using assms by (simp add: push_bit_eq_mult unat_word_ariths)

text \<open>
  What the conversion path does in general: a buffer of odd length is refused by
  \<^verbatim>\<open>np.frombuffer\<close>, a buffer of even length and the wrong size gets the error of
  line 177 with the expected and the actual size, and neither reaches the demosaicing or the
  file write.
\<close>

lemma length_uint16_samples: "length (uint16_samples buf) = length buf div 2"
  by (induction buf rule: uint16_samples.induct) simp_all

lemma bayer_image_16bit_odd:
  assumes "odd (get_buffer_size frame)"
  shows "bayer_image_16bit frame = Inl (ValueError BufferNotMultipleOfElementSize)"
  using assms
  by (simp add: bayer_image_16bit_def np_frombuffer_uint16_def then_do_def get_buffer_size_def
        Let_def odd_iff_mod_2_eq_one)

lemma bayer_image_16bit_even_mismatch:
  assumes "even (get_buffer_size frame)"
      and "get_buffer_size frame \<noteq> get_width frame * get_height frame * 2"
  shows "bayer_image_16bit frame =
           Inl (ValueError (SizeMismatchBytes (get_width frame * get_height frame * 2)
                              (get_buffer_size frame)))"
  using assms
  by (simp add: bayer_image_16bit_def np_frombuffer_uint16_def then_do_def get_buffer_size_def
        Let_def even_iff_mod_2_eq_zero)

lemma size_mismatch_in_callback:
  assumes "key \<noteq> ENTER_KEY_CODE" and "get_status frame = Complete"
      and "get_pixel_format frame \<noteq> opencv_display_format"
      and "convert_pixel_format lib frame opencv_display_format = Inr display"
      and "get_buffer_size frame \<noteq> get_width frame * get_height frame * 2"
  shows "Handler_call lib key frame =
           ([], Raise (ValueError
              (if even (get_buffer_size frame)
               then SizeMismatchBytes (get_width frame * get_height frame * 2)
                      (get_buffer_size frame)
               else BufferNotMultipleOfElementSize)))"
proof (cases "even (get_buffer_size frame)")
  case True
  from bayer_image_16bit_even_mismatch [OF True assms(5)] assms(1-4) True show ?thesis
    by (simp add: Handler_call_def display_frame_def save_tiff_def)
next
  case False
  from bayer_image_16bit_odd [OF False] assms(1-4) False show ?thesis
    by (simp add: Handler_call_def display_frame_def save_tiff_def)
qed

text \<open>
  On a grid of more than 200 rows and 200 columns whose buffer has the right size, the three
  printed samples exist and the grid handed to the demosaicing is the row-major reshape of the
  samples, each shifted left by four bits.
\<close>

lemma at2_reshaped:
  assumes "r < h" and "c < w" and "length a = h * w"
  shows "at2 (map (\<lambda>r. take w (drop (r * w) a)) [0..<h]) r c = Inr (a ! (r * w + c))"
proof -
  have "r * w + w \<le> h * w"
  proof -
    from assms(1) have "Suc r \<le> h" by simp
    then have "Suc r * w \<le> h * w" by (rule mult_le_mono1)
    then show ?thesis by (simp add: add.commute)
  qed
  with assms show ?thesis by (simp add: at2_def)
qed

lemma at2_shifted:
  assumes "at2 img r c = Inr v"
  shows "at2 (shift_left_4 img) r c = Inr (push_bit 4 v)"
  using assms by (auto simp: at2_def shift_left_4_def split: if_splits)

lemma bayer_image_16bit_large:
  assumes "200 < get_height frame" and "200 < get_width frame"
      and "get_buffer_size frame = get_width frame * get_height frame * 2"
  shows "bayer_image_16bit frame =
           Inr (shift_left_4
                  (map (\<lambda>r. take (get_width frame)
                                (drop (r * get_width frame) (uint16_samples (get_buffer frame))))
                     [0..<get_height frame]))"
proof -
  let ?a = "uint16_samples (get_buffer frame)"
  let ?h = "get_height frame" and ?w = "get_width frame"
  let ?img = "map (\<lambda>r. take ?w (drop (r * ?w) ?a)) [0..<?h]"
  from assms(3) have len: "length ?a = ?h * ?w"
    by (simp add: length_uint16_samples get_buffer_size_def mult.commute)
  from assms(3) have even: "length (get_buffer frame) mod 2 = 0"
    by (simp add: get_buffer_size_def)
  have i: "at2 ?img 0 0 = Inr (?a ! (0 * ?w + 0))"
          "at2 ?img 100 100 = Inr (?a ! (100 * ?w + 100))"
          "at2 ?img 200 200 = Inr (?a ! (200 * ?w + 200))"
    using assms(1,2) len by (intro at2_reshaped; simp)+
  note j = i [THEN at2_shifted]
  from len have r: "reshape ?a ?h ?w = Inr ?img" by (simp add: reshape_def)
  show ?thesis
    using assms(3) even len
    by (simp add: bayer_image_16bit_def np_frombuffer_uint16_def then_do_def Let_def r i j
          mult.commute)
qed

section \<open>The consumer loop\<close>

text \<open>
  C9. In the consumer loop of the ROI script, for a frame whose pixel format is not the
  display format and whose conversion succeeds, the converted copy is not used: the image
  shown and the mean and sum written to the file are those of the original frame, the same
  as without the conversion branch, and the same for every conversion function.
\<close>

theorem converted_copy_unused:
  assumes "get_pixel_format frame \<noteq> opencv_display_format"
      and "convert_pixel_format lib frame opencv_display_format = Inr display"
  shows "process_frame lib frame =
           and_then (lift (as_opencv_image lib frame)) (\<lambda>img_opencv.
           and_then (lift (as_numpy_ndarray lib frame)) (\<lambda>img_numpy.
           ([FileWrite (np_mean lib img_numpy) (np_sum lib img_numpy), ImShow img_opencv],
            Return ())))
         \<and> (\<forall>convert' display'. convert' frame opencv_display_format = Inr display' \<longrightarrow>
               process_frame (lib\<lparr>convert_pixel_format := convert'\<rparr>) frame
                 = process_frame lib frame)"
  using assms by (simp add: process_frame_def Let_def)

theorem converted_copy_unused_witness:
  "process_frame example_library frame_2x2 =
     ([FileWrite 0 490, ImShow [[[100, 0, 200, 0, 44, 1, 144, 1]]]], Return ())
   \<and> process_frame
        (example_library\<lparr>convert_pixel_format := (\<lambda>frame fmt. Inr frame_bgr)\<rparr>) frame_2x2
      = process_frame example_library frame_2x2"
proof -
  have a: "get_pixel_format frame_2x2 \<noteq> opencv_display_format"
    by (simp add: frame_2x2_def opencv_display_format_def)
  have b: "convert_pixel_format example_library frame_2x2 opencv_display_format
             = Inr (frame_2x2\<lparr>get_pixel_format := opencv_display_format\<rparr>)"
    by (simp add: example_library_def)
  have c: "as_opencv_image example_library frame_2x2 = Inr [[[100, 0, 200, 0, 44, 1, 144, 1]]]"
          "as_numpy_ndarray example_library frame_2x2 = Inr [[[100, 0, 200, 0, 44, 1, 144, 1]]]"
    by (simp_all add: example_library_def frame_2x2_def)
  have d: "np_mean example_library [[[100, 0, 200, 0, 44, 1, 144, 1]]] = 0"
          "np_sum example_library [[[100, 0, 200, 0, 44, 1, 144, 1]]] = 490"
    by (simp_all add: example_library_def)
  from converted_copy_unused [OF a b] c d show ?thesis by simp
qed

section \<open>Camera setup\<close>

lemma and_then_effects:
  assumes "list_all P (fst m)" and "\<And>x. snd m = Return x \<Longrightarrow> list_all P (fst (f x))"
  shows "list_all P (fst (and_then m f))"
proof (cases m)
  case (Pair effs r)
  with assms show ?thesis by (cases r) simp_all
qed

lemma except_feature_errors_fst [simp]: "fst (except_feature_errors m) = fst m"
  by (cases m) (simp add: except_feature_errors_def)

lemma feature_get_effects [simp]: "fst (feature_get f) = []"
  by (simp add: feature_get_def)

lemma lift_fst [simp]: "fst (lift m) = []"
  by (cases m) simp_all

lemma cam_getattr_Return:
  assumes "snd (lift (cam_getattr cam name)) = Return f"
  shows "features cam name = Some f"
  using assms by (simp add: cam_getattr_def split: option.splits)

lemma get_feature_by_name_Return:
  assumes "snd (lift (get_feature_by_name cam name)) = Return f"
  shows "features cam name = Some f"
  using assms by (simp add: get_feature_by_name_def split: option.splits)

lemma feature_set_effects:
  assumes "features cam name = Some f"
  shows "list_all (accepted_setting cam) (fst (feature_set name f v))"
  using assms by (simp add: feature_set_def)

lemma set_exposure_auto_off_effects:
  "list_all (accepted_setting cam) (fst (set_exposure_auto_off cam))"
  unfolding set_exposure_auto_off_def
  by (intro and_then_effects) (simp_all add: feature_set_effects cam_getattr_Return)

lemma set_exposure_roi_fps_effects:
  "list_all (accepted_setting cam) (fst (set_exposure_roi_fps cam))"
  unfolding set_exposure_roi_fps_def
  by (intro and_then_effects) (simp_all add: feature_set_effects get_feature_by_name_Return)

lemma and_then_recoverable:
  assumes "recoverable (snd m)" and "\<And>x. recoverable (snd (f x))"
  shows "recoverable (snd (and_then m f))"
proof (cases m)
  case (Pair effs r)
  with assms show ?thesis by (cases r) (simp_all add: recoverable_def)
qed

lemma except_feature_errors_recoverable:
  assumes "recoverable (snd m)"
  shows "snd (except_feature_errors m) = Return ()"
proof (cases m)
  case (Pair effs r)
  with assms show ?thesis
    by (cases r) (auto simp: recoverable_def except_feature_errors_def)
qed

lemma recoverable_steps [simp]:
  "recoverable (snd (lift (cam_getattr cam name)))"
  "recoverable (snd (lift (get_feature_by_name cam name)))"
  "recoverable (snd (feature_set name f v))"
  "recoverable (snd (feature_get f))"
  by (simp_all add: recoverable_def cam_getattr_def get_feature_by_name_def feature_set_def
        feature_get_def split: option.splits)

lemma set_exposure_auto_off_recoverable: "recoverable (snd (set_exposure_auto_off cam))"
  unfolding set_exposure_auto_off_def by (intro and_then_recoverable) simp_all

lemma set_exposure_roi_fps_recoverable: "recoverable (snd (set_exposure_roi_fps cam))"
  unfolding set_exposure_roi_fps_def by (intro and_then_recoverable allI) simp_all

lemma poll_is_done_from:
  assumes "answers (i + d)"
  shows "\<exists>k. poll_is_done answers i = Some k"
  using assms
proof (induction d arbitrary: i)
  case 0
  then show ?case by (subst poll_is_done.simps) simp
next
  case (Suc d)
  then have "\<exists>k. poll_is_done answers (Suc i) = Some k" by simp
  then show ?case by (subst poll_is_done.simps) simp
qed

lemma poll_is_done_returns:
  assumes "\<exists>n. answers n"
  shows "\<exists>k. poll_is_done answers 0 = Some k"
  using assms poll_is_done_from [of answers 0] by auto

lemma adjust_packet_size_returns:
  assumes "get_streams cam \<noteq> []"
      and "\<forall>cmd. GVSPAdjustPacketSize (get_streams cam ! 0) = Some cmd \<and> runs cmd
             \<longrightarrow> (\<exists>n. is_done cmd n)"
  shows "\<exists>m. adjust_packet_size cam = Some m \<and> recoverable (snd m)
          \<and> list_all (accepted_setting cam) (fst m)"
proof -
  from assms(1) obtain stream rest where s: "get_streams cam = stream # rest"
    by (cases "get_streams cam") auto
  show ?thesis
  proof (cases "GVSPAdjustPacketSize stream")
    case None
    with s show ?thesis by (simp add: adjust_packet_size_def recoverable_def)
  next
    case (Some cmd)
    show ?thesis
    proof (cases "runs cmd")
      case False
      with s Some show ?thesis by (simp add: adjust_packet_size_def recoverable_def)
    next
      case True
      with assms(2) s Some have "\<exists>n. is_done cmd n" by simp
      then obtain k where "poll_is_done (is_done cmd) 0 = Some k"
        using poll_is_done_returns by blast
      with s Some True show ?thesis by (simp add: adjust_packet_size_def recoverable_def)
    qed
  qed
qed

lemma adjust_packet_size_effects:
  assumes "adjust_packet_size cam = Some m"
  shows "list_all (accepted_setting cam) (fst m)"
  using assms
  by (auto simp: adjust_packet_size_def split: list.splits option.splits if_splits)

lemma setup_camera_effects:
  assumes "setup_camera cam = Some (effs, r)"
  shows "list_all (accepted_setting cam) effs"
proof -
  obtain e1 r1 where b1: "except_feature_errors (set_exposure_auto_off cam) = (e1, r1)"
    by (cases "except_feature_errors (set_exposure_auto_off cam)")
  obtain e2 r2 where b2: "except_feature_errors (set_exposure_roi_fps cam) = (e2, r2)"
    by (cases "except_feature_errors (set_exposure_roi_fps cam)")
  from b1 except_feature_errors_recoverable [OF set_exposure_auto_off_recoverable, of cam]
  have r1: "r1 = Return ()" by simp
  from b2 except_feature_errors_recoverable [OF set_exposure_roi_fps_recoverable, of cam]
  have r2: "r2 = Return ()" by simp
  from b1 set_exposure_auto_off_effects [of cam] have e1: "list_all (accepted_setting cam) e1"
    by (metis except_feature_errors_fst fst_conv)
  from b2 set_exposure_roi_fps_effects [of cam] have e2: "list_all (accepted_setting cam) e2"
    by (metis except_feature_errors_fst fst_conv)
  show ?thesis
  proof (cases "adjust_packet_size cam")
    case None
    with assms b1 b2 r1 r2 show ?thesis by (simp add: setup_camera_def)
  next
    case (Some m)
    from adjust_packet_size_effects [OF Some] have "list_all (accepted_setting cam) (fst m)" .
    with assms b1 b2 r1 r2 e1 e2 Some show ?thesis
      by (auto simp: setup_camera_def)
  qed
qed

text \<open>
  C8, amended. In \<^verbatim>\<open>setup_camera\<close> of the ROI script every setting step (automatic
  exposure, the block of exposure time, region of interest and frame rate, the packet size)
  that fails because the feature is absent or refuses the value is caught where it happens:
  on a camera with a stream, whose packet size command, if it runs, reports completion at
  some poll, \<^verbatim>\<open>setup_camera\<close> returns normally; all it has done is to set features the
  camera has to values they accept and to run the command, so a failed adjustment is skipped;
  and \<^verbatim>\<open>main\<close> goes on to pixel format negotiation and streaming. The selection of the
  noise correction in the dark current script is outside this guarantee.
\<close>

theorem setup_camera_recovers:
  assumes "get_streams cam \<noteq> []"
      and "\<forall>cmd. GVSPAdjustPacketSize (get_streams cam ! 0) = Some cmd \<and> runs cmd
             \<longrightarrow> (\<exists>n. is_done cmd n)"
  shows "\<exists>effs. setup_camera cam = Some (effs, Return ()) \<and> list_all (accepted_setting cam) effs
           \<and> main_roi_start V cam =
               Some (and_then (effs, Return ()) (\<lambda>_.
                     and_then (setup_pixel_format_roi V cam) (\<lambda>_.
                     ([StartStreaming 10], Return ()))))"
proof -
  obtain e1 r1 where b1: "except_feature_errors (set_exposure_auto_off cam) = (e1, r1)"
    by (cases "except_feature_errors (set_exposure_auto_off cam)")
  obtain e2 r2 where b2: "except_feature_errors (set_exposure_roi_fps cam) = (e2, r2)"
    by (cases "except_feature_errors (set_exposure_roi_fps cam)")
  from b1 except_feature_errors_recoverable [OF set_exposure_auto_off_recoverable, of cam]
  have r1: "r1 = Return ()" by simp
  from b2 except_feature_errors_recoverable [OF set_exposure_roi_fps_recoverable, of cam]
  have r2: "r2 = Return ()" by simp
  from b1 set_exposure_auto_off_effects [of cam] have e1: "list_all (accepted_setting cam) e1"
    by (metis except_feature_errors_fst fst_conv)
  from b2 set_exposure_roi_fps_effects [of cam] have e2: "list_all (accepted_setting cam) e2"
    by (metis except_feature_errors_fst fst_conv)
  from adjust_packet_size_returns [OF assms] obtain e3 r3
    where b3: "adjust_packet_size cam = Some (e3, r3)" and r3: "recoverable r3"
      and e3: "list_all (accepted_setting cam) e3"
    by auto
  from r3 have x3: "except_feature_errors (e3, r3) = (e3, Return ())"
    using except_feature_errors_recoverable [of "(e3, r3)"]
    by (metis except_feature_errors_fst fst_conv prod.collapse snd_conv)
  have sc: "setup_camera cam = Some (e1 @ e2 @ e3, Return ())"
    by (simp add: setup_camera_def b1 b2 r1 r2 b3 x3)
  moreover have "list_all (accepted_setting cam) (e1 @ e2 @ e3)" using e1 e2 e3 by simp
  ultimately show ?thesis by (simp add: main_roi_start_def)
qed

theorem setup_camera_recovers_witness:
  "features camera_mono ''ExposureAuto'' = None \<and> get_streams camera_mono \<noteq> []
   \<and> (\<exists>effs. setup_camera camera_mono = Some (effs, Return ())
         \<and> list_all (accepted_setting camera_mono) effs
         \<and> main_roi_start example_formats camera_mono =
               Some (and_then (effs, Return ()) (\<lambda>_.
                     and_then (setup_pixel_format_roi example_formats camera_mono) (\<lambda>_.
                     ([StartStreaming 10], Return ())))))
   \<and> (\<exists>cmd. GVSPAdjustPacketSize (get_streams camera_gige ! 0) = Some cmd \<and> runs cmd
         \<and> is_done cmd 2)
   \<and> (\<exists>effs. setup_camera camera_gige = Some (effs, Return ()))"
proof -
  have a: "get_streams camera_mono \<noteq> []" by (simp add: camera_mono_def)
  have b: "\<forall>cmd. GVSPAdjustPacketSize (get_streams camera_mono ! 0) = Some cmd \<and> runs cmd
             \<longrightarrow> (\<exists>n. is_done cmd n)"
    by (simp add: camera_mono_def usb_stream_def)
  have c: "features camera_mono ''ExposureAuto'' = None" by (simp add: camera_mono_def)
  have a': "get_streams camera_gige \<noteq> []" by (simp add: camera_gige_def)
  have g: "GVSPAdjustPacketSize (get_streams camera_gige ! 0)
             = Some \<lparr>runs = True, is_done = (\<lambda>i. 2 \<le> i)\<rparr>"
    by (simp add: camera_gige_def gige_stream_def)
  have b': "\<forall>cmd. GVSPAdjustPacketSize (get_streams camera_gige ! 0) = Some cmd \<and> runs cmd
             \<longrightarrow> (\<exists>n. is_done cmd n)"
    unfolding g by auto
  from setup_camera_recovers [OF a b, of example_formats]
       setup_camera_recovers [OF a' b', of example_formats] a c g
  show ?thesis by auto
qed

text \<open>
  C8 as stated fails for the noise correction: \<^verbatim>\<open>main\<close> of the dark current script
  selects it with no handler around the statements, so on a camera without the feature
  \<^verbatim>\<open>CorrectionSelector\<close> the error leaves \<^verbatim>\<open>main\<close> and ends the process.
\<close>

theorem setup_camera_recovers_counterexample:
  "features camera_mono ''CorrectionSelector'' = None
   \<and> dark_current_configure camera_mono = ([SetPixelFormat Mono12], Raise VmbFeatureError)"
  by (simp add: dark_current_configure_def camera_mono_def get_feature_by_name_def)

section \<open>Pixel format negotiation\<close>

lemma find_filter:
  "find P xs = (if filter P xs = [] then None else Some (filter P xs ! 0))"
  by (induction xs) auto

lemma negotiated_format_code:
  "negotiated_format V opencv_display_format cam_formats =
     (let color = convertible_formats V
                    (intersect_pixel_formats V cam_formats (COLOR_PIXEL_FORMATS V));
          mono = convertible_formats V
                    (intersect_pixel_formats V cam_formats (MONO_PIXEL_FORMATS V))
      in if opencv_display_format \<in> set cam_formats then Some opencv_display_format
         else if color \<noteq> [] then Some (color ! 0)
         else if mono \<noteq> [] then Some (mono ! 0)
         else None)"
  by (simp add: negotiated_format_def convertible_formats_def find_filter Let_def)

text \<open>
  C3, amended. \<^verbatim>\<open>setup_pixel_format\<close> of the TIFF script selects by first match: the
  display format when the camera has it, otherwise the first convertible colour format,
  otherwise the first convertible monochrome format, and aborts with exit code 1 when there
  is none. \<^verbatim>\<open>setup_pixel_format\<close> of the ROI script does the same except in the
  monochrome fallback, where it selects the third convertible monochrome format when there
  are at least three; when it aborts, \<^verbatim>\<open>main\<close> exits with code 1 and no stream has been
  started.
\<close>

theorem pixel_format_negotiation:
  "setup_pixel_format V cam =
     (case negotiated_format V opencv_display_format (get_pixel_formats cam) of
        Some f \<Rightarrow> ([SetPixelFormat f], Return ())
      | None \<Rightarrow>
          ([Print (''Camera does not support an OpenCV compatible format. Abort.''
                     @ [CHR 0x0A])], SysExit 1))
   \<and> (opencv_display_format \<in> set (get_pixel_formats cam)
        \<or> convertible_formats V (intersect_pixel_formats V (get_pixel_formats cam)
                                   (COLOR_PIXEL_FORMATS V)) \<noteq> []
        \<or> convertible_formats V (intersect_pixel_formats V (get_pixel_formats cam)
                                   (MONO_PIXEL_FORMATS V)) = []
        \<longrightarrow> setup_pixel_format_roi V cam = setup_pixel_format V cam)
   \<and> (opencv_display_format \<notin> set (get_pixel_formats cam)
        \<and> convertible_formats V (intersect_pixel_formats V (get_pixel_formats cam)
                                   (COLOR_PIXEL_FORMATS V)) = []
        \<and> 2 < length (convertible_formats V (intersect_pixel_formats V (get_pixel_formats cam)
                                   (MONO_PIXEL_FORMATS V)))
        \<longrightarrow> setup_pixel_format_roi V cam =
              ([SetPixelFormat (convertible_formats V (intersect_pixel_formats V
                   (get_pixel_formats cam) (MONO_PIXEL_FORMATS V)) ! 2)], Return ()))
   \<and> (negotiated_format V opencv_display_format (get_pixel_formats cam) = None
        \<longrightarrow> (\<forall>effs. setup_camera cam = Some (effs, Return ()) \<longrightarrow>
              main_roi_start V cam =
                Some (effs @ [Print (''Camera does not support an OpenCV compatible format. Abort.''
                                       @ [CHR 0x0A])], SysExit 1)
              \<and> (\<forall>n. StartStreaming n \<notin> set effs)))"
proof (intro conjI impI allI)
  show "setup_pixel_format V cam =
     (case negotiated_format V opencv_display_format (get_pixel_formats cam) of
        Some f \<Rightarrow> ([SetPixelFormat f], Return ())
      | None \<Rightarrow>
          ([Print (''Camera does not support an OpenCV compatible format. Abort.''
                     @ [CHR 0x0A])], SysExit 1))"
    by (simp add: setup_pixel_format_def negotiated_format_code Let_def abort_def)
next
  assume "opencv_display_format \<in> set (get_pixel_formats cam)
        \<or> convertible_formats V (intersect_pixel_formats V (get_pixel_formats cam)
                                   (COLOR_PIXEL_FORMATS V)) \<noteq> []
        \<or> convertible_formats V (intersect_pixel_formats V (get_pixel_formats cam)
                                   (MONO_PIXEL_FORMATS V)) = []"
  then show "setup_pixel_format_roi V cam = setup_pixel_format V cam"
    by (auto simp: setup_pixel_format_roi_def setup_pixel_format_def Let_def)
next
  assume "opencv_display_format \<notin> set (get_pixel_formats cam)
        \<and> convertible_formats V (intersect_pixel_formats V (get_pixel_formats cam)
                                   (COLOR_PIXEL_FORMATS V)) = []
        \<and> 2 < length (convertible_formats V (intersect_pixel_formats V (get_pixel_formats cam)
                                   (MONO_PIXEL_FORMATS V)))"
  then show "setup_pixel_format_roi V cam =
              ([SetPixelFormat (convertible_formats V (intersect_pixel_formats V
                   (get_pixel_formats cam) (MONO_PIXEL_FORMATS V)) ! 2)], Return ())"
    by (auto simp: setup_pixel_format_roi_def Let_def)
next
  fix effs
  assume n: "negotiated_format V opencv_display_format (get_pixel_formats cam) = None"
     and s: "setup_camera cam = Some (effs, Return ())"
  from n have "setup_pixel_format_roi V cam =
      ([Print (''Camera does not support an OpenCV compatible format. Abort.'' @ [CHR 0x0A])],
       SysExit 1)"
    by (simp add: negotiated_format_code setup_pixel_format_roi_def Let_def abort_def
          split: if_splits)
  with s show "main_roi_start V cam =
                Some (effs @ [Print (''Camera does not support an OpenCV compatible format. Abort.''
                                       @ [CHR 0x0A])], SysExit 1)"
    by (simp add: main_roi_start_def)
next
  fix effs n
  assume s: "setup_camera cam = Some (effs, Return ())"
  from setup_camera_effects [OF s] have "\<forall>e\<in>set effs. accepted_setting cam e"
    by (simp add: list_all_iff)
  then show "StartStreaming n \<notin> set effs" by auto
qed

theorem pixel_format_negotiation_witness:
  "setup_pixel_format example_formats camera_gige = ([SetPixelFormat BayerRG12], Return ())
   \<and> setup_pixel_format_roi example_formats camera_gige = ([SetPixelFormat BayerRG12], Return ())
   \<and> setup_pixel_format_roi example_formats camera_mono = ([SetPixelFormat Mono12], Return ())
   \<and> setup_camera camera_mono16 = Some ([], Return ())
   \<and> main_roi_start example_formats camera_mono16 =
        Some ([Print (''Camera does not support an OpenCV compatible format. Abort.''
                        @ [CHR 0x0A])], SysExit 1)"
proof -
  have color: "convertible_formats example_formats
                 (intersect_pixel_formats example_formats (get_pixel_formats camera_gige)
                    (COLOR_PIXEL_FORMATS example_formats)) = [BayerRG12]"
    by (simp add: convertible_formats_def example_formats_def camera_gige_def
          opencv_display_format_def)
  have g: "negotiated_format example_formats opencv_display_format
             (get_pixel_formats camera_gige) = Some BayerRG12"
    by (simp add: negotiated_format_def example_formats_def camera_gige_def
          opencv_display_format_def)
  have mono: "convertible_formats example_formats
                 (intersect_pixel_formats example_formats (get_pixel_formats camera_mono)
                    (MONO_PIXEL_FORMATS example_formats)) = [Mono8, Mono10, Mono12]"
             "convertible_formats example_formats
                 (intersect_pixel_formats example_formats (get_pixel_formats camera_mono)
                    (COLOR_PIXEL_FORMATS example_formats)) = []"
             "opencv_display_format \<notin> set (get_pixel_formats camera_mono)"
    by (simp_all add: convertible_formats_def example_formats_def camera_mono_def
          opencv_display_format_def)
  have n: "negotiated_format example_formats opencv_display_format
             (get_pixel_formats camera_mono16) = None"
    by (simp add: negotiated_format_def example_formats_def camera_mono16_def
          opencv_display_format_def)
  have s: "setup_camera camera_mono16 = Some ([], Return ())"
    by (simp add: setup_camera_def set_exposure_auto_off_def set_exposure_roi_fps_def
          cam_getattr_def get_feature_by_name_def camera_mono16_def usb_stream_def
          except_feature_errors_def adjust_packet_size_def)
  from pixel_format_negotiation [of example_formats camera_gige]
       pixel_format_negotiation [of example_formats camera_mono]
       pixel_format_negotiation [of example_formats camera_mono16]
       color g mono n s
  show ?thesis by simp
qed

text \<open>
  C3 as stated fails for the ROI script: on a camera with the convertible monochrome formats
  Mono8, Mono10 and Mono12 the first match is Mono8, and the script sets Mono12.
\<close>

theorem pixel_format_negotiation_counterexample:
  "negotiated_format example_formats opencv_display_format (get_pixel_formats camera_mono)
     = Some Mono8
   \<and> setup_pixel_format_roi example_formats camera_mono = ([SetPixelFormat Mono12], Return ())"
  by (simp add: negotiated_format_def setup_pixel_format_roi_def convertible_formats_def
        example_formats_def camera_mono_def opencv_display_format_def)

section \<open>The bounded frame queue\<close>

lemma Handler_call_roi_queue:
  assumes "Handler_call_roi self frame = Some (self', effs)"
      and "0 < maxsize (display_queue self)"
      and "length (items (display_queue self)) \<le> maxsize (display_queue self)"
  shows "maxsize (display_queue self') = maxsize (display_queue self)
         \<and> length (items (display_queue self')) \<le> maxsize (display_queue self)
         \<and> items (display_queue self') =
             items (display_queue self) @ (if get_status frame = Complete then [frame] else [])"
  using assms
  by (auto simp: Handler_call_roi_def Queue_put_def split: if_splits)

lemma Handler_get_image_queue:
  assumes "Handler_get_image self = Some (frame, self')"
  shows "maxsize (display_queue self') = maxsize (display_queue self)
         \<and> items (display_queue self) = frame # items (display_queue self')"
  using assms
  by (auto simp: Handler_get_image_def Queue_get_def split: list.splits)

lemma run_schedule_fifo:
  assumes "run_schedule self calls = Some (self', effs, got)"
      and "0 < maxsize (display_queue self)"
      and "length (items (display_queue self)) \<le> maxsize (display_queue self)"
  shows "maxsize (display_queue self') = maxsize (display_queue self)
         \<and> length (items (display_queue self')) \<le> maxsize (display_queue self)
         \<and> items (display_queue self) @ pushed calls = got @ items (display_queue self')"
  using assms
proof (induction self calls arbitrary: self' effs got rule: run_schedule.induct)
  case (1 self)
  then show ?case by simp
next
  case (2 self frame calls)
  from "2.prems"(1) obtain s1 e1 where
    c: "Handler_call_roi self frame = Some (s1, e1)"
    by (auto split: option.splits)
  with "2.prems"(1) obtain e2 where
    r: "run_schedule s1 calls = Some (self', e2, got)"
    by (auto split: option.splits)
  note q = Handler_call_roi_queue [OF c "2.prems"(2,3)]
  from q have m: "maxsize (display_queue s1) = maxsize (display_queue self)"
    and l: "length (items (display_queue s1)) \<le> maxsize (display_queue self)" by blast+
  from m l "2.prems"(2) have "0 < maxsize (display_queue s1)"
    and "length (items (display_queue s1)) \<le> maxsize (display_queue s1)" by simp_all
  from "2.IH" [OF c [symmetric, THEN sym] refl r this] q show ?case
    by (cases "get_status frame = Complete") simp_all
next
  case (3 self calls)
  from "3.prems"(1) obtain frame s1 where
    g: "Handler_get_image self = Some (frame, s1)"
    by (auto split: option.splits)
  with "3.prems"(1) obtain e2 got' where
    r: "run_schedule s1 calls = Some (self', e2, got')" and got: "got = frame # got'"
    by (auto split: option.splits)
  note q = Handler_get_image_queue [OF g]
  from q "3.prems"(2,3) have "0 < maxsize (display_queue s1)"
    and "length (items (display_queue s1)) \<le> maxsize (display_queue s1)" by simp_all
  from "3.IH" [OF g [symmetric, THEN sym] refl r this] q got show ?case
    by simp
qed

lemma run_schedule_prefix:
  assumes "run_schedule self (xs @ ys) = Some r"
  shows "\<exists>r'. run_schedule self xs = Some r'"
  using assms
proof (induction xs arbitrary: self r)
  case Nil
  then show ?case by simp
next
  case (Cons call xs)
  show ?case
  proof (cases call)
    case (Callback frame)
    with Cons.prems obtain s1 e1 r1 where
      c: "Handler_call_roi self frame = Some (s1, e1)" and "run_schedule s1 (xs @ ys) = Some r1"
      by (auto split: option.splits)
    from Cons.IH [OF this(2)] obtain r' where "run_schedule s1 xs = Some r'" by blast
    with c Callback show ?thesis by (cases r') simp
  next
    case GetImage
    with Cons.prems obtain frame s1 r1 where
      g: "Handler_get_image self = Some (frame, s1)" and "run_schedule s1 (xs @ ys) = Some r1"
      by (auto split: option.splits)
    from Cons.IH [OF this(2)] obtain r' where "run_schedule s1 xs = Some r'" by blast
    with g GetImage show ?thesis by (cases r') simp
  qed
qed

lemma Handler_call_roi_full:
  assumes "0 < maxsize (display_queue self)"
      and "length (items (display_queue self)) = maxsize (display_queue self)"
      and "get_status frame = Complete"
  shows "Handler_call_roi self frame = None"
  using assms by (simp add: Handler_call_roi_def Queue_put_def)

text \<open>
  C6. On the bounded frame queue of capacity \<open>C\<close> (the handler of the ROI script uses 10),
  after every sequence of completed pushes and pops the queue holds at most \<open>C\<close> items,
  and so it does after every prefix of the sequence; the frames popped followed by the frames
  still queued are exactly the frames pushed, in the order pushed, so nothing accepted is
  dropped and pops are first-in first-out; a push onto a full queue blocks.
\<close>

theorem bounded_fifo_queue:
  assumes "0 < C"
      and "run_schedule \<lparr>display_queue = Queue C\<rparr> calls = Some (self', effs, got)"
  shows "length (items (display_queue self')) \<le> C
         \<and> pushed calls = got @ items (display_queue self')
         \<and> (\<forall>n. \<exists>s e g. run_schedule \<lparr>display_queue = Queue C\<rparr> (take n calls) = Some (s, e, g)
                \<and> length (items (display_queue s)) \<le> C
                \<and> pushed (take n calls) = g @ items (display_queue s))
         \<and> (\<forall>self frame. maxsize (display_queue self) = C
                \<and> length (items (display_queue self)) = C \<and> get_status frame = Complete
                \<longrightarrow> Handler_call_roi self frame = None)
         \<and> Handler_init = \<lparr>display_queue = Queue 10\<rparr>"
proof -
  let ?h = "\<lparr>display_queue = Queue C\<rparr>"
  have m: "0 < maxsize (display_queue ?h)"
    and l: "length (items (display_queue ?h)) \<le> maxsize (display_queue ?h)"
    using assms(1) by (simp_all add: Queue_def)
  have i: "items (display_queue ?h) = []" and c: "maxsize (display_queue ?h) = C"
    by (simp_all add: Queue_def)
  from run_schedule_fifo [OF assms(2) m l] i c
  have final: "length (items (display_queue self')) \<le> C"
    "pushed calls = got @ items (display_queue self')"
    by simp_all
  have every: "\<exists>s e g. run_schedule ?h (take n calls) = Some (s, e, g)
                \<and> length (items (display_queue s)) \<le> C
                \<and> pushed (take n calls) = g @ items (display_queue s)" for n
  proof -
    from assms(2) have "run_schedule ?h (take n calls @ drop n calls) = Some (self', effs, got)"
      by simp
    from run_schedule_prefix [OF this] obtain s e g
      where p: "run_schedule ?h (take n calls) = Some (s, e, g)"
      by (metis prod_cases3)
    from run_schedule_fifo [OF p m l] i c p show ?thesis by simp
  qed
  have full: "Handler_call_roi self frame = None"
    if "maxsize (display_queue self) = C \<and> length (items (display_queue self)) = C
        \<and> get_status frame = Complete" for self frame
    using that assms(1) by (simp add: Handler_call_roi_full)
  from final every full show ?thesis by (simp add: Handler_init_def)
qed

theorem bounded_fifo_queue_witness:
  "run_schedule Handler_init [Callback frame_bgr, Callback frame_2x2, GetImage]
     = Some (\<lparr>display_queue = \<lparr>maxsize = 10, items = [frame_2x2]\<rparr>\<rparr>,
             [QueueFrame frame_bgr, QueueFrame frame_2x2], [frame_bgr])
   \<and> pushed [Callback frame_bgr, Callback frame_2x2, GetImage] = [frame_bgr] @ [frame_2x2]
   \<and> Handler_call_roi \<lparr>display_queue = \<lparr>maxsize = 10, items = replicate 10 frame_bgr\<rparr>\<rparr>
        frame_2x2 = None"
proof -
  have st: "get_status frame_bgr = Complete" "get_status frame_2x2 = Complete"
    by (simp_all add: frame_bgr_def frame_2x2_def)
  have r: "run_schedule \<lparr>display_queue = Queue 10\<rparr>
             [Callback frame_bgr, Callback frame_2x2, GetImage]
     = Some (\<lparr>display_queue = \<lparr>maxsize = 10, items = [frame_2x2]\<rparr>\<rparr>,
             [QueueFrame frame_bgr, QueueFrame frame_2x2], [frame_bgr])"
    by (simp add: Handler_call_roi_def Handler_get_image_def Queue_def Queue_put_def
          Queue_get_def st)
  have c: "(0::nat) < 10" by simp
  from bounded_fifo_queue [OF c r] r st show ?thesis
    by (simp add: Handler_init_def)
qed

section \<open>Shutdown of the consumer loop\<close>

text \<open>
  C5, amended. The consumer loop of the ROI script looks at the shutdown key only at the top
  of an iteration, before the blocking pop. While the main thread is blocked in the pop on
  the empty queue it cannot move, whatever key is pressed; once the callback has pushed a
  frame it pops and processes that frame; at the next poll the Enter key makes it leave the
  loop, closing the window, the file and the stream without processing a frame.
\<close>

theorem blocked_consumer:
  "(pc s = AtGetImage \<and> items (display_queue (handler s)) = []
      \<longrightarrow> main_loop_step lib key s = None)
   \<and> (pc s = AtGetImage \<and> Handler_call_roi (handler s) frame = Some (self', effs)
        \<and> items (display_queue (handler s)) = [] \<and> get_status frame = Complete
      \<longrightarrow> (\<exists>s'. main_loop_step lib key (s\<lparr>handler := self'\<rparr>) = Some s'
             \<and> items (display_queue (handler s')) = []
             \<and> effects s' = effects s @ fst (process_frame lib frame)
                  @ (if snd (process_frame lib frame) = Return () then []
                     else [FileClose, StopStreaming])
             \<and> pc s' = (if snd (process_frame lib frame) = Return () then AtWaitKey
                        else Left (snd (process_frame lib frame)))))
   \<and> (pc s = AtWaitKey
      \<longrightarrow> main_loop_step lib key s =
            Some (if key = ENTER_KEY_CODE
                  then s\<lparr>pc := Left (Return ()),
                         effects := effects s @ [DestroyWindow, FileClose, StopStreaming]\<rparr>
                  else s\<lparr>pc := AtGetImage\<rparr>))"
proof (intro conjI impI)
  assume "pc s = AtGetImage \<and> items (display_queue (handler s)) = []"
  then show "main_loop_step lib key s = None"
    by (simp add: main_loop_step_def Handler_get_image_def Queue_get_def)
next
  assume a: "pc s = AtGetImage \<and> Handler_call_roi (handler s) frame = Some (self', effs)
        \<and> items (display_queue (handler s)) = [] \<and> get_status frame = Complete"
  then have q: "items (display_queue self') = [frame]"
    by (auto simp: Handler_call_roi_def Queue_put_def split: option.splits if_splits)
  obtain e r where p: "process_frame lib frame = (e, r)" by (cases "process_frame lib frame")
  show "\<exists>s'. main_loop_step lib key (s\<lparr>handler := self'\<rparr>) = Some s'
             \<and> items (display_queue (handler s')) = []
             \<and> effects s' = effects s @ fst (process_frame lib frame)
                  @ (if snd (process_frame lib frame) = Return () then []
                     else [FileClose, StopStreaming])
             \<and> pc s' = (if snd (process_frame lib frame) = Return () then AtWaitKey
                        else Left (snd (process_frame lib frame)))"
    using a q p
    by (cases r) (simp_all add: main_loop_step_def Handler_get_image_def Queue_get_def)
next
  assume "pc s = AtWaitKey"
  then show "main_loop_step lib key s =
            Some (if key = ENTER_KEY_CODE
                  then s\<lparr>pc := Left (Return ()),
                         effects := effects s @ [DestroyWindow, FileClose, StopStreaming]\<rparr>
                  else s\<lparr>pc := AtGetImage\<rparr>)"
    by (simp add: main_loop_step_def)
qed

text \<open>
  C5 as stated fails: with the Enter key pressed, the main thread blocked in
  \<^verbatim>\<open>get_image\<close> on the empty queue has no step; nothing wakes it but a pushed frame.
\<close>

theorem blocked_consumer_counterexample:
  "main_loop_step example_library ENTER_KEY_CODE
     \<lparr>pc = AtGetImage, handler = Handler_init, effects = []\<rparr> = None"
  by (simp add: main_loop_step_def Handler_get_image_def Queue_get_def Handler_init_def
        Queue_def)

theorem blocked_consumer_witness:
  "main_loop_step example_library ENTER_KEY_CODE
     \<lparr>pc = AtGetImage, handler = Handler_init, effects = []\<rparr> = None
   \<and> (\<exists>s'. main_loop_step example_library ENTER_KEY_CODE
              \<lparr>pc = AtGetImage,
               handler = \<lparr>display_queue = \<lparr>maxsize = 10, items = [frame_bgr]\<rparr>\<rparr>,
               effects = []\<rparr> = Some s'
           \<and> effects s' = [FileWrite 0 60, ImShow [[[10, 20, 30]]]] \<and> pc s' = AtWaitKey)
   \<and> main_loop_step example_library ENTER_KEY_CODE
        \<lparr>pc = AtWaitKey, handler = Handler_init, effects = []\<rparr>
      = Some \<lparr>pc = Left (Return ()), handler = Handler_init,
              effects = [DestroyWindow, FileClose, StopStreaming]\<rparr>"
proof -
  let ?s = "\<lparr>pc = AtGetImage, handler = Handler_init, effects = []\<rparr>"
  let ?w = "\<lparr>pc = AtWaitKey, handler = Handler_init, effects = []\<rparr>"
  let ?h = "\<lparr>display_queue = \<lparr>maxsize = 10, items = [frame_bgr]\<rparr>\<rparr>"
  have c: "Handler_call_roi (handler ?s) frame_bgr = Some (?h, [QueueFrame frame_bgr])"
    by (simp add: Handler_call_roi_def Handler_init_def Queue_def Queue_put_def frame_bgr_def)
  have e: "items (display_queue (handler ?s)) = []" "get_status frame_bgr = Complete"
    by (simp_all add: Handler_init_def Queue_def frame_bgr_def)
  have p: "process_frame example_library frame_bgr
             = ([FileWrite 0 60, ImShow [[[10, 20, 30]]]], Return ())"
    by (simp add: process_frame_def example_library_def frame_bgr_def opencv_display_format_def)
  from blocked_consumer [where s = ?s and frame = frame_bgr and self' = ?h
         and effs = "[QueueFrame frame_bgr]" and lib = example_library and key = ENTER_KEY_CODE]
       blocked_consumer [where s = ?w and frame = frame_bgr and self' = ?h
         and effs = "[QueueFrame frame_bgr]" and lib = example_library and key = ENTER_KEY_CODE]
       c e p
  show ?thesis by auto
qed

end
